theory Spec2Isabelle
  imports Main "HOL-Library.Word"
begin

section \<open>The request and response pipeline of the go-reddit client\<close>

text \<open>
  The client of \<^verbatim>\<open>reddit.go\<close> builds an HTTP request, gates it on the rate
  limit it last saw, sends it, stores the rate limit of the response, classifies the
  response and decodes its body. The entities of \<^verbatim>\<open>json.go\<close> decode themselves
  with \<^verbatim>\<open>UnmarshalJSON\<close>.

  Go strings and byte slices are \<open>string\<close>s (lists of bytes). A \<^verbatim>\<open>time.Time\<close> is
  the number of nanoseconds since Go's zero time, an unbounded \<open>int\<close>: the instants the
  client handles are wall-clock readings and a few seconds added to one. An \<^verbatim>\<open>int\<close>
  and an \<^verbatim>\<open>int64\<close> are the 64-bit integers of a 64-bit platform, kept as \<open>int\<close>
  with the clamping and the wrap-around written out where the source can reach them.
\<close>

subsection \<open>Constants of the package\<close>

definition headerRateLimitRemaining :: string where
  "headerRateLimitRemaining = ''x-ratelimit-remaining''"

definition headerRateLimitUsed :: string where
  "headerRateLimitUsed = ''x-ratelimit-used''"

definition headerRateLimitReset :: string where
  "headerRateLimitReset = ''x-ratelimit-reset''"

definition headerContentType :: string where
  "headerContentType = ''Content-Type''"

definition headerAccept :: string where
  "headerAccept = ''Accept''"

definition mediaTypeJSON :: string where
  "mediaTypeJSON = ''application/json''"

definition mediaTypeForm :: string where
  "mediaTypeForm = ''application/x-www-form-urlencoded''"

subsection \<open>Library: decimal integers (\<^verbatim>\<open>strconv\<close>)\<close>

definition isDigit :: "char \<Rightarrow> bool" where
  "isDigit c = (c \<in> set ''0123456789'')"

definition digitVal :: "char \<Rightarrow> int" where
  "digitVal c =
     (case map_of (zip ''0123456789'' [0, 1, 2, 3, 4, 5, 6, 7, 8, 9]) c of
        None \<Rightarrow> 0
      | Some n \<Rightarrow> n)"

definition decimal :: "string \<Rightarrow> int" where
  "decimal ds = foldl (\<lambda>n c. 10 * n + digitVal c) 0 ds"

text \<open>
  \<^verbatim>\<open>strconv.ParseUint(s, 10, 64)\<close> reads the digits from the left: a byte that is
  not a decimal digit is a syntax error, a value that leaves 64 bits is a range error, and
  whichever comes first ends the loop.
\<close>

datatype parsed = Parsed int | ErrSyntax | ErrRange

fun ParseUint_loop :: "int \<Rightarrow> string \<Rightarrow> parsed" where
  "ParseUint_loop n [] = Parsed n"
| "ParseUint_loop n (c # cs) =
     (if \<not> isDigit c then ErrSyntax
      else if 10 * n + digitVal c > 2 ^ 64 - 1 then ErrRange
      else ParseUint_loop (10 * n + digitVal c) cs)"

definition ParseUint :: "string \<Rightarrow> parsed" where
  "ParseUint s = (if s = [] then ErrSyntax else ParseUint_loop 0 s)"

text \<open>
  \<^verbatim>\<open>strconv.ParseInt(s, 10, 64)\<close> with its error dropped, as every caller in the
  source drops it: an optional sign, then \<^verbatim>\<open>ParseUint\<close>; a syntax error gives 0, a
  value out of range gives the nearest bound. \<^verbatim>\<open>strconv.Atoi\<close> gives the same
  value on a 64-bit platform.
\<close>

definition ParseInt :: "string \<Rightarrow> int" where
  "ParseInt s =
     (if s = [] then 0
      else
        (let neg = (hd s = CHR ''-'');
             ds = (if hd s = CHR ''+'' \<or> hd s = CHR ''-'' then tl s else s)
         in case ParseUint ds of
              ErrSyntax \<Rightarrow> 0
            | ErrRange \<Rightarrow> if neg then - (2 ^ 63) else 2 ^ 63 - 1
            | Parsed un \<Rightarrow>
                if \<not> neg \<and> un \<ge> 2 ^ 63 then 2 ^ 63 - 1
                else if neg \<and> un > 2 ^ 63 then - (2 ^ 63)
                else if neg then - un else un))"

definition Atoi :: "string \<Rightarrow> int" where
  "Atoi s = ParseInt s"

text \<open>
  \<^verbatim>\<open>v, _ := strconv.ParseFloat(s, 64)\<close> followed by \<^verbatim>\<open>int(v)\<close>. Floating point
  is outside the model, except where it is exact: a string of at most 15 decimal digits
  denotes an integer below \<open>2 ^ 53\<close>, which \<^verbatim>\<open>float64\<close> holds exactly, so the
  conversion gives that integer. On every other string the result is what the parameter
  \<open>pf\<close> says.
\<close>

definition ParseFloat_int :: "(string \<Rightarrow> int) \<Rightarrow> string \<Rightarrow> int" where
  "ParseFloat_int pf s =
     (if s \<noteq> [] \<and> list_all isDigit s \<and> length s \<le> 15 then decimal s else pf s)"

subsection \<open>Library: instants and durations (\<^verbatim>\<open>time\<close>)\<close>

type_synonym Time = int

definition Second :: int where
  "Second = 1000000000"

definition IsZero :: "Time \<Rightarrow> bool" where
  "IsZero t = (t = 0)"

definition Before :: "Time \<Rightarrow> Time \<Rightarrow> bool" where
  "Before t u = (t < u)"

definition Truncate :: "Time \<Rightarrow> int \<Rightarrow> Time" where
  "Truncate t d = (if d \<le> 0 then t else t - t mod d)"

definition Add :: "Time \<Rightarrow> int \<Rightarrow> Time" where
  "Add t d = t + d"

text \<open>
  \<^verbatim>\<open>time.Second * time.Duration(v)\<close>: a product of two \<^verbatim>\<open>int64\<close>, which wraps.
\<close>

definition Seconds :: "int \<Rightarrow> int" where
  "Seconds v = sint (word_of_int Second * word_of_int v :: 64 word)"

subsection \<open>Data: rate, URL, request, response\<close>

record Rate =
  Remaining :: int
  Used :: int
  Reset :: Time

definition Rate_zero :: Rate where
  "Rate_zero = \<lparr>Remaining = 0, Used = 0, Reset = 0\<rparr>"

record URL =
  Scheme :: string
  Host :: string
  Path :: string
  RawQuery :: string

text \<open>
  A header maps a name to its values; \<^verbatim>\<open>Header.Get\<close> gives the first value of a
  name, or the empty string. The library compares names in canonical case; the model keys
  a header by the names as the constants of the package spell them.
\<close>

type_synonym Header = "string \<rightharpoonup> string list"

definition Header_Get :: "Header \<Rightarrow> string \<Rightarrow> string" where
  "Header_Get h key = (case h key of None \<Rightarrow> [] | Some [] \<Rightarrow> [] | Some (v # _) \<Rightarrow> v)"

definition Header_Add :: "Header \<Rightarrow> string \<Rightarrow> string \<Rightarrow> Header" where
  "Header_Add h key v = h(key \<mapsto> (case h key of None \<Rightarrow> [v] | Some vs \<Rightarrow> vs @ [v]))"

text \<open>
  A response body is a reader: the bytes not read yet, and what the reader reports once
  they are exhausted, \<^verbatim>\<open>io.EOF\<close> (\<open>None\<close>) or an error that it keeps reporting.
\<close>

record ReadCloser =
  unread :: string
  failure :: "string option"

record Request =
  Method :: string
  URL :: URL
  ReqHeader :: Header
  ReqBody :: "string option"

record Response =
  Status :: string
  StatusCode :: int
  Header :: Header
  Body :: ReadCloser
  ContentLength :: int
  Request :: Request

subsection \<open>The environment of a call\<close>

text \<open>
  What a call reads from outside the program: the clock, read once by the gate
  (\<open>now_gate\<close>), once when \<^verbatim>\<open>Do\<close> parses the rate of the response
  (\<open>now_store\<close>) and once more when \<^verbatim>\<open>CheckResponse\<close> parses it again
  (\<open>now_check\<close>); the float parser outside its exact fragment; the text that
  \<^verbatim>\<open>fmt\<close> prints for an instant.
\<close>

record env =
  now_gate :: Time
  now_store :: Time
  now_check :: Time
  ParseFloat :: "string \<Rightarrow> int"
  Time_String :: "Time \<Rightarrow> string"

subsection \<open>parseRate\<close>

definition parseRate :: "env \<Rightarrow> Time \<Rightarrow> Response \<Rightarrow> Rate" where
  "parseRate e now r =
     (let rate0 = Rate_zero;
          remaining = Header_Get (Header r) headerRateLimitRemaining;
          rate1 = (if remaining \<noteq> [] then rate0\<lparr>Remaining := ParseFloat_int (ParseFloat e) remaining\<rparr>
                   else rate0);
          used = Header_Get (Header r) headerRateLimitUsed;
          rate2 = (if used \<noteq> [] then rate1\<lparr>Used := Atoi used\<rparr> else rate1);
          reset = Header_Get (Header r) headerRateLimitReset;
          rate3 = (if reset \<noteq> [] then
                     (let v = ParseInt reset
                      in if v \<noteq> 0 then rate2\<lparr>Reset := Add (Truncate now Second) (Seconds v)\<rparr>
                         else rate2)
                   else rate2)
      in rate3)"

subsection \<open>Errors\<close>

text \<open>
  The four error types of the package, and the \<^verbatim>\<open>error\<close> interface as their sum. A
  \<^verbatim>\<open>ResponseError\<close> holds its message and its response (which may be nil); a
  \<^verbatim>\<open>RateLimitError\<close> embeds one and adds the rate; a \<^verbatim>\<open>JSONError\<close> holds its
  message and its data.
\<close>

datatype InternalError = InternalError string

datatype JSONError = JSONError string string

datatype ResponseError = ResponseError string "Response option"

datatype RateLimitError = RateLimitError ResponseError Rate

datatype error =
    E_Internal InternalError
  | E_JSON JSONError
  | E_Response ResponseError
  | E_RateLimit RateLimitError

text \<open>
  A call returns, or panics: Go stops the call with a run-time error (a method called on
  a nil \<^verbatim>\<open>error\<close>, a slice made with a negative length).
\<close>

datatype 'a outcome = Return 'a | Panic string

definition nilDereference :: string where
  "nilDereference = ''runtime error: invalid memory address or nil pointer dereference''"

definition makesliceLen :: string where
  "makesliceLen = ''runtime error: makeslice: len out of range''"

subsection \<open>The client\<close>

text \<open>
  A reference is nil or the address of an object the model does not look into: the
  service handles, the OAuth transport, the completion callback. The field \<open>client\<close>
  is the HTTP client, as what it answers to a request: an error (with the response the
  library may return beside it) or a response.
\<close>

datatype ref = Nil | Ref nat

datatype roundtrip = RoundTripError string "Response option" | RoundTripOK Response

record Client =
  client :: "Request \<Rightarrow> roundtrip"
  BaseURL :: URL
  TokenURL :: URL
  userAgent :: string
  rate :: Rate
  ID :: string
  Secret :: string
  Username :: string
  Password :: string
  redditID :: string
  Account :: ref
  Captcha :: ref
  Collection :: ref
  Emoji :: ref
  Flair :: ref
  Gold :: ref
  LinkAndComment :: ref
  Listings :: ref
  Message :: ref
  Moderation :: ref
  Multi :: ref
  Subreddit :: ref
  User :: ref
  Widget :: ref
  Wiki :: ref
  oauth2Transport :: ref
  onRequestCompleted :: ref

definition defaultBaseURL :: URL where
  "defaultBaseURL = \<lparr>Scheme = ''https'', Host = ''oauth.reddit.com'', Path = [], RawQuery = []\<rparr>"

definition defaultBaseURLReadonly :: URL where
  "defaultBaseURLReadonly = \<lparr>Scheme = ''https'', Host = ''reddit.com'', Path = [], RawQuery = []\<rparr>"

definition defaultTokenURL :: URL where
  "defaultTokenURL =
     \<lparr>Scheme = ''https'', Host = ''www.reddit.com'', Path = ''/api/v1/access_token'', RawQuery = []\<rparr>"

text \<open>
  \<^verbatim>\<open>newClient\<close>: every field that the struct literal does not name has its zero
  value; the fifteen services are allocated one after the other. The parameter is the
  transport of the fresh \<^verbatim>\<open>http.Client\<close>.
\<close>

definition newClient :: "(Request \<Rightarrow> roundtrip) \<Rightarrow> Client" where
  "newClient net =
     \<lparr>client = net, BaseURL = defaultBaseURL, TokenURL = defaultTokenURL, userAgent = [],
      rate = Rate_zero, ID = [], Secret = [], Username = [], Password = [], redditID = [],
      Account = Ref 1, Captcha = Ref 2, Collection = Ref 3, Emoji = Ref 4, Flair = Ref 5,
      Gold = Ref 6, LinkAndComment = Ref 7, Listings = Ref 8, Message = Ref 9,
      Moderation = Ref 10, Multi = Ref 11, Subreddit = Ref 12, User = Ref 13, Widget = Ref 14,
      Wiki = Ref 15, oauth2Transport = Nil, onRequestCompleted = Nil\<rparr>"

subsection \<open>The rate gate\<close>

definition StatusTooManyRequests :: int where
  "StatusTooManyRequests = 429"

definition fake429 :: "Request \<Rightarrow> Response" where
  "fake429 req =
     \<lparr>Status = ''Too Many Requests'', StatusCode = StatusTooManyRequests, Header = Map.empty,
      Body = \<lparr>unread = [], failure = None\<rparr>, ContentLength = 0, Request = req\<rparr>"

definition checkRateLimitBeforeDo :: "env \<Rightarrow> Client \<Rightarrow> Request \<Rightarrow> RateLimitError option" where
  "checkRateLimitBeforeDo e c req =
     (let rate = rate c
      in if \<not> IsZero (Reset rate) \<and> Remaining rate = 0 \<and> Before (now_gate e) (Reset rate)
         then Some (RateLimitError
                (ResponseError
                   (''API rate limit still exceeded until '' @ Time_String e (Reset rate)
                      @ '', not making remote request.'')
                   (Some (fake429 req)))
                rate)
         else None)"

subsection \<open>CheckResponse\<close>

text \<open>
  \<^verbatim>\<open>ioutil.ReadAll\<close> reads a body to its end: the bytes, the error of the reader
  (nil at \<^verbatim>\<open>io.EOF\<close>), and the body it leaves.
\<close>

definition ReadAll :: "ReadCloser \<Rightarrow> string \<times> string option \<times> ReadCloser" where
  "ReadAll b = (unread b, failure b, b\<lparr>unread := []\<rparr>)"

text \<open>
  \<^verbatim>\<open>CheckResponse\<close> returns the error (nil is \<open>None\<close>) and leaves the response with
  its body read. Where \<^verbatim>\<open>ReadAll\<close> returns no error, the source evaluates
  \<^verbatim>\<open>err.Error()\<close> on that nil error, which panics.
\<close>

definition CheckResponse :: "env \<Rightarrow> Response \<Rightarrow> error option outcome \<times> Response" where
  "CheckResponse e r =
     (if Header_Get (Header r) headerRateLimitRemaining = ''0'' then
        (let rate = parseRate e (now_check e) r
         in (Return (Some (E_RateLimit (RateLimitError
               (ResponseError
                  (''API rate limit has been exceeded until '' @ Time_String e (Reset rate) @ ''.'')
                  (Some r))
               rate))), r))
      else
        (case ReadAll (Body r) of (data, err, b) \<Rightarrow>
           (let r' = r\<lparr>Body := b\<rparr>
            in case err of
                 None \<Rightarrow> (Panic nilDereference, r')
               | Some m \<Rightarrow>
                   if StatusCode r' = 200 then (Return None, r')
                   else (Return (Some (E_Response (ResponseError m (Some r')))), r'))))"

subsection \<open>Do\<close>

text \<open>
  The destination \<^verbatim>\<open>v\<close> of a call: nil; an \<^verbatim>\<open>io.Writer\<close>, given by the error
  (or none) of its \<^verbatim>\<open>Write\<close> on some bytes; any other value, given by what
  \<^verbatim>\<open>json.NewDecoder(body).Decode(v)\<close> does on a body that still has bytes to read,
  its error (or none) and the body it leaves.
\<close>

datatype dest =
    NilDest
  | Writer "string \<Rightarrow> string option"
  | Value "ReadCloser \<Rightarrow> string option \<times> ReadCloser"

text \<open>
  What a call does outside the client: the request handed to the HTTP client, the
  completion callback called, bytes written to the destination.
\<close>

datatype event = Call Request | Completed Request Response | Wrote string

definition errorText :: "ReadCloser \<Rightarrow> string" where
  "errorText b = (case failure b of None \<Rightarrow> ''EOF'' | Some m \<Rightarrow> m)"

text \<open>
  \<^verbatim>\<open>io.Copy\<close> writes what is left of the body and returns the first error of the
  writer or of the reader, \<^verbatim>\<open>io.EOF\<close> being no error.
\<close>

definition Copy :: "(string \<Rightarrow> string option) \<Rightarrow> ReadCloser \<Rightarrow> string option \<times> ReadCloser \<times> event list" where
  "Copy w b =
     (if unread b = [] then (failure b, b, [])
      else case w (unread b) of
             Some m \<Rightarrow> (Some m, b\<lparr>unread := []\<rparr>, [])
           | None \<Rightarrow> (failure b, b\<lparr>unread := []\<rparr>, [Wrote (unread b)]))"

text \<open>
  \<^verbatim>\<open>Decode\<close> on a body with nothing left to read returns the error of the reader;
  otherwise it is the destination's own.
\<close>

definition Decode :: "(ReadCloser \<Rightarrow> string option \<times> ReadCloser) \<Rightarrow> ReadCloser \<Rightarrow> string option \<times> ReadCloser" where
  "Decode u b = (if unread b = [] then (Some (errorText b), b) else u b)"

text \<open>
  \<^verbatim>\<open>Body.Read\<close> into a slice of \<open>n\<close> bytes: the bytes read, the error, the body
  left.
\<close>

definition Read :: "ReadCloser \<Rightarrow> nat \<Rightarrow> string \<times> string option \<times> ReadCloser" where
  "Read b n =
     (if unread b = [] then ([], Some (errorText b), b)
      else (take n (unread b), None, b\<lparr>unread := drop n (unread b)\<rparr>))"

text \<open>
  The last part of \<^verbatim>\<open>Do\<close>, from \<^verbatim>\<open>if v != nil\<close> on. After a failed
  \<^verbatim>\<open>Decode\<close> the source makes a slice of \<^verbatim>\<open>resp.ContentLength\<close> zero bytes
  (a panic when that is negative), reads the body into it, assigning the result to
  \<^verbatim>\<open>err\<close>, and returns a \<^verbatim>\<open>JSONError\<close> with the text of \<^verbatim>\<open>err\<close>, which is
  nil, and panics, when the read has succeeded.
\<close>

definition storeBody :: "dest \<Rightarrow> Response \<Rightarrow> (error + Response) outcome \<times> event list" where
  "storeBody v resp =
     (case v of
        NilDest \<Rightarrow> (Return (Inr resp), [])
      | Writer w \<Rightarrow>
          (case Copy w (Body resp) of (err, b, ev) \<Rightarrow>
             (case err of
                Some m \<Rightarrow> (Return (Inl (E_Internal (InternalError m))), ev)
              | None \<Rightarrow> (Return (Inr (resp\<lparr>Body := b\<rparr>)), ev)))
      | Value u \<Rightarrow>
          (case Decode u (Body resp) of (err, b) \<Rightarrow>
             (case err of
                None \<Rightarrow> (Return (Inr (resp\<lparr>Body := b\<rparr>)), [])
              | Some _ \<Rightarrow>
                  if ContentLength resp < 0 then (Panic makesliceLen, [])
                  else
                    (case Read b (nat (ContentLength resp)) of (got, rerr, _) \<Rightarrow>
                       (let data = got @ replicate (nat (ContentLength resp) - length got) (CHR 0x00)
                        in case rerr of
                             Some m \<Rightarrow> (Return (Inl (E_JSON (JSONError m data))), [])
                           | None \<Rightarrow> (Panic nilDereference, []))))))"

text \<open>
  \<^verbatim>\<open>Do\<close> returns its result, the client it leaves and the events of the call, in
  order. The context only reaches the HTTP client, whose answer is a field of the client.
  Closing the body changes nothing the model keeps.
\<close>

definition Do :: "env \<Rightarrow> Client \<Rightarrow> Request \<Rightarrow> dest \<Rightarrow> (error + Response) outcome \<times> Client \<times> event list" where
  "Do e c req v =
     (case checkRateLimitBeforeDo e c req of
        Some err \<Rightarrow> (Return (Inl (E_RateLimit err)), c, [])
      | None \<Rightarrow>
          (case client c req of
             RoundTripError m resp \<Rightarrow> (Return (Inl (E_Response (ResponseError m resp))), c, [Call req])
           | RoundTripOK resp \<Rightarrow>
               (let ev = Call req # (if onRequestCompleted c \<noteq> Nil then [Completed req resp] else []);
                    c' = c\<lparr>rate := parseRate e (now_store e) resp\<rparr>
                in case CheckResponse e resp of
                     (Panic p, _) \<Rightarrow> (Panic p, c', ev)
                   | (Return (Some err), _) \<Rightarrow> (Return (Inl err), c', ev)
                   | (Return None, resp') \<Rightarrow>
                       (case storeBody v resp' of (res, ev') \<Rightarrow> (res, c', ev @ ev')))))"

subsection \<open>Building a request\<close>

text \<open>
  Two calls of the library are parameters of the model: \<^verbatim>\<open>BaseURL.Parse(path)\<close>,
  which resolves a reference against the base, and \<^verbatim>\<open>http.NewRequest\<close>, taken at
  the URL itself where the source passes its text; each gives the text of its error, or
  its result.
\<close>

record net =
  url_Parse :: "URL \<Rightarrow> string \<Rightarrow> string + URL"
  http_NewRequest :: "string \<Rightarrow> URL \<Rightarrow> string option \<Rightarrow> string + Request"

text \<open>
  \<^verbatim>\<open>url.Parse(defaultBaseURLReadonly)\<close> cannot fail, so the first return of the
  source is dead; the host it compares with is that of \<open>defaultBaseURLReadonly\<close>.
\<close>

definition appendJSONExtensionToRequestURLPath :: "Request \<Rightarrow> Request" where
  "appendJSONExtensionToRequestURLPath req =
     (if Host (URL req) \<noteq> Host defaultBaseURLReadonly then req
      else req\<lparr>URL := (URL req)\<lparr>Path := Path (URL req) @ ''.json''\<rparr>\<rparr>)"

definition Request_Header_Add :: "Request \<Rightarrow> string \<Rightarrow> string \<Rightarrow> Request" where
  "Request_Header_Add req key v = req\<lparr>ReqHeader := Header_Add (ReqHeader req) key v\<rparr>"

definition NewRequest :: "net \<Rightarrow> Client \<Rightarrow> string \<Rightarrow> string \<Rightarrow> string option \<Rightarrow> error + Request" where
  "NewRequest l c method path form =
     (case url_Parse l (BaseURL c) path of
        Inl m \<Rightarrow> Inl (E_Internal (InternalError m))
      | Inr u \<Rightarrow>
          (case http_NewRequest l method u form of
             Inl m \<Rightarrow> Inl (E_Internal (InternalError m))
           | Inr req \<Rightarrow>
               Inr (Request_Header_Add
                      (Request_Header_Add (appendJSONExtensionToRequestURLPath req)
                         headerContentType mediaTypeForm)
                      headerAccept mediaTypeJSON)))"

subsection \<open>Library: the syntax check of \<^verbatim>\<open>encoding/json\<close>\<close>

text \<open>
  \<^verbatim>\<open>json.Unmarshal\<close> first runs \<^verbatim>\<open>checkValid\<close>, the scanner of
  \<^verbatim>\<open>scanner.go\<close>, over its input: a state machine with one step function per state
  and a stack of the objects and arrays that are open. The model has the states as a
  datatype and the step functions under the library's names; the states inside a literal
  share one step function, given the letter to come and the state after it, and the
  four states of a unicode escape are one state that counts the hex digits read. A step
  after which the scanner holds an error is \<open>None\<close>.
\<close>

datatype state =
    BeginValueOrEmpty | BeginValue | BeginStringOrEmpty | BeginString
  | EndValue | EndTop
  | InString | InStringEsc | InStringEscU nat
  | Neg | State1 | State0 | Dot | Dot0 | StateE | StateESign | StateE0
  | StateT | StateTr | StateTru | StateF | StateFa | StateFal | StateFals | StateN | StateNu | StateNul

datatype parseState = parseObjectKey | parseObjectValue | parseArrayValue

record scanner =
  step :: state
  parseStack :: "parseState list"
  endTop :: bool

definition maxNestingDepth :: nat where
  "maxNestingDepth = 10000"

definition isSpace :: "char \<Rightarrow> bool" where
  "isSpace c = (c = CHR '' '' \<or> c = CHR 0x09 \<or> c = CHR 0x0D \<or> c = CHR 0x0A)"

definition isHex :: "char \<Rightarrow> bool" where
  "isHex c = (c \<in> set ''0123456789abcdefABCDEF'')"

definition scanner_reset :: scanner where
  "scanner_reset = \<lparr>step = BeginValue, parseStack = [], endTop = False\<rparr>"

definition pushParseState :: "scanner \<Rightarrow> parseState \<Rightarrow> scanner option" where
  "pushParseState s p =
     (if Suc (length (parseStack s)) \<le> maxNestingDepth
      then Some (s\<lparr>parseStack := p # parseStack s\<rparr>) else None)"

definition popParseState :: "scanner \<Rightarrow> scanner" where
  "popParseState s =
     (let ps = tl (parseStack s)
      in if ps = [] then s\<lparr>parseStack := ps, step := EndTop, endTop := True\<rparr>
         else s\<lparr>parseStack := ps, step := EndValue\<rparr>)"

definition stateEndTop :: "scanner \<Rightarrow> char \<Rightarrow> scanner option" where
  "stateEndTop s c = (if \<not> isSpace c then None else Some s)"

definition stateEndValue :: "scanner \<Rightarrow> char \<Rightarrow> scanner option" where
  "stateEndValue s c =
     (case parseStack s of
        [] \<Rightarrow> stateEndTop (s\<lparr>step := EndTop, endTop := True\<rparr>) c
      | p # ps \<Rightarrow>
          if isSpace c then Some (s\<lparr>step := EndValue\<rparr>)
          else (case p of
                  parseObjectKey \<Rightarrow>
                    if c = CHR '':'' then Some (s\<lparr>parseStack := parseObjectValue # ps, step := BeginValue\<rparr>)
                    else None
                | parseObjectValue \<Rightarrow>
                    if c = CHR '','' then Some (s\<lparr>parseStack := parseObjectKey # ps, step := BeginString\<rparr>)
                    else if c = CHR ''}'' then Some (popParseState s)
                    else None
                | parseArrayValue \<Rightarrow>
                    if c = CHR '','' then Some (s\<lparr>step := BeginValue\<rparr>)
                    else if c = CHR '']'' then Some (popParseState s)
                    else None))"

definition stateBeginValue :: "scanner \<Rightarrow> char \<Rightarrow> scanner option" where
  "stateBeginValue s c =
     (if isSpace c then Some s
      else if c = CHR ''{'' then pushParseState (s\<lparr>step := BeginStringOrEmpty\<rparr>) parseObjectKey
      else if c = CHR ''['' then pushParseState (s\<lparr>step := BeginValueOrEmpty\<rparr>) parseArrayValue
      else if c = CHR 0x22 then Some (s\<lparr>step := InString\<rparr>)
      else if c = CHR ''-'' then Some (s\<lparr>step := Neg\<rparr>)
      else if c = CHR ''0'' then Some (s\<lparr>step := State0\<rparr>)
      else if c = CHR ''t'' then Some (s\<lparr>step := StateT\<rparr>)
      else if c = CHR ''f'' then Some (s\<lparr>step := StateF\<rparr>)
      else if c = CHR ''n'' then Some (s\<lparr>step := StateN\<rparr>)
      else if c \<in> set ''123456789'' then Some (s\<lparr>step := State1\<rparr>)
      else None)"

definition stateBeginValueOrEmpty :: "scanner \<Rightarrow> char \<Rightarrow> scanner option" where
  "stateBeginValueOrEmpty s c =
     (if isSpace c then Some s
      else if c = CHR '']'' then stateEndValue s c
      else stateBeginValue s c)"

definition stateBeginString :: "scanner \<Rightarrow> char \<Rightarrow> scanner option" where
  "stateBeginString s c =
     (if isSpace c then Some s
      else if c = CHR 0x22 then Some (s\<lparr>step := InString\<rparr>)
      else None)"

definition stateBeginStringOrEmpty :: "scanner \<Rightarrow> char \<Rightarrow> scanner option" where
  "stateBeginStringOrEmpty s c =
     (if isSpace c then Some s
      else if c = CHR ''}'' then stateEndValue (s\<lparr>parseStack := parseObjectValue # tl (parseStack s)\<rparr>) c
      else stateBeginString s c)"

definition stateInString :: "scanner \<Rightarrow> char \<Rightarrow> scanner option" where
  "stateInString s c =
     (if c = CHR 0x22 then Some (s\<lparr>step := EndValue\<rparr>)
      else if c = CHR 0x5C then Some (s\<lparr>step := InStringEsc\<rparr>)
      else if (of_char c :: nat) < 32 then None
      else Some s)"

definition stateInStringEsc :: "scanner \<Rightarrow> char \<Rightarrow> scanner option" where
  "stateInStringEsc s c =
     (if c \<in> set ''bfnrt/'' \<or> c = CHR 0x5C \<or> c = CHR 0x22 then Some (s\<lparr>step := InString\<rparr>)
      else if c = CHR ''u'' then Some (s\<lparr>step := InStringEscU 0\<rparr>)
      else None)"

definition stateInStringEscU :: "nat \<Rightarrow> scanner \<Rightarrow> char \<Rightarrow> scanner option" where
  "stateInStringEscU k s c =
     (if isHex c then Some (s\<lparr>step := (if k < 3 then InStringEscU (Suc k) else InString)\<rparr>)
      else None)"

definition state0 :: "scanner \<Rightarrow> char \<Rightarrow> scanner option" where
  "state0 s c =
     (if c = CHR ''.'' then Some (s\<lparr>step := Dot\<rparr>)
      else if c = CHR ''e'' \<or> c = CHR ''E'' then Some (s\<lparr>step := StateE\<rparr>)
      else stateEndValue s c)"

definition state1 :: "scanner \<Rightarrow> char \<Rightarrow> scanner option" where
  "state1 s c = (if c \<in> set ''0123456789'' then Some (s\<lparr>step := State1\<rparr>) else state0 s c)"

definition stateNeg :: "scanner \<Rightarrow> char \<Rightarrow> scanner option" where
  "stateNeg s c =
     (if c = CHR ''0'' then Some (s\<lparr>step := State0\<rparr>)
      else if c \<in> set ''123456789'' then Some (s\<lparr>step := State1\<rparr>)
      else None)"

definition stateDot :: "scanner \<Rightarrow> char \<Rightarrow> scanner option" where
  "stateDot s c = (if c \<in> set ''0123456789'' then Some (s\<lparr>step := Dot0\<rparr>) else None)"

definition stateDot0 :: "scanner \<Rightarrow> char \<Rightarrow> scanner option" where
  "stateDot0 s c =
     (if c \<in> set ''0123456789'' then Some s
      else if c = CHR ''e'' \<or> c = CHR ''E'' then Some (s\<lparr>step := StateE\<rparr>)
      else stateEndValue s c)"

definition stateESign :: "scanner \<Rightarrow> char \<Rightarrow> scanner option" where
  "stateESign s c = (if c \<in> set ''0123456789'' then Some (s\<lparr>step := StateE0\<rparr>) else None)"

definition stateE :: "scanner \<Rightarrow> char \<Rightarrow> scanner option" where
  "stateE s c =
     (if c = CHR ''+'' \<or> c = CHR ''-'' then Some (s\<lparr>step := StateESign\<rparr>) else stateESign s c)"

definition stateE0 :: "scanner \<Rightarrow> char \<Rightarrow> scanner option" where
  "stateE0 s c = (if c \<in> set ''0123456789'' then Some s else stateEndValue s c)"

definition stateLiteral :: "char \<Rightarrow> state \<Rightarrow> scanner \<Rightarrow> char \<Rightarrow> scanner option" where
  "stateLiteral x next s c = (if c = x then Some (s\<lparr>step := next\<rparr>) else None)"

definition scanner_step :: "scanner \<Rightarrow> char \<Rightarrow> scanner option" where
  "scanner_step s c =
     (case step s of
        BeginValueOrEmpty \<Rightarrow> stateBeginValueOrEmpty s c
      | BeginValue \<Rightarrow> stateBeginValue s c
      | BeginStringOrEmpty \<Rightarrow> stateBeginStringOrEmpty s c
      | BeginString \<Rightarrow> stateBeginString s c
      | EndValue \<Rightarrow> stateEndValue s c
      | EndTop \<Rightarrow> stateEndTop s c
      | InString \<Rightarrow> stateInString s c
      | InStringEsc \<Rightarrow> stateInStringEsc s c
      | InStringEscU k \<Rightarrow> stateInStringEscU k s c
      | Neg \<Rightarrow> stateNeg s c
      | State1 \<Rightarrow> state1 s c
      | State0 \<Rightarrow> state0 s c
      | Dot \<Rightarrow> stateDot s c
      | Dot0 \<Rightarrow> stateDot0 s c
      | StateE \<Rightarrow> stateE s c
      | StateESign \<Rightarrow> stateESign s c
      | StateE0 \<Rightarrow> stateE0 s c
      | StateT \<Rightarrow> stateLiteral (CHR ''r'') StateTr s c
      | StateTr \<Rightarrow> stateLiteral (CHR ''u'') StateTru s c
      | StateTru \<Rightarrow> stateLiteral (CHR ''e'') EndValue s c
      | StateF \<Rightarrow> stateLiteral (CHR ''a'') StateFa s c
      | StateFa \<Rightarrow> stateLiteral (CHR ''l'') StateFal s c
      | StateFal \<Rightarrow> stateLiteral (CHR ''s'') StateFals s c
      | StateFals \<Rightarrow> stateLiteral (CHR ''e'') EndValue s c
      | StateN \<Rightarrow> stateLiteral (CHR ''u'') StateNu s c
      | StateNu \<Rightarrow> stateLiteral (CHR ''l'') StateNul s c
      | StateNul \<Rightarrow> stateLiteral (CHR ''l'') EndValue s c)"

definition scanner_eof :: "scanner \<Rightarrow> bool" where
  "scanner_eof s =
     (if endTop s then True
      else (case scanner_step s (CHR '' '') of None \<Rightarrow> False | Some s' \<Rightarrow> endTop s'))"

fun scan :: "scanner \<Rightarrow> string \<Rightarrow> scanner option" where
  "scan s [] = Some s"
| "scan s (c # cs) = (case scanner_step s c of None \<Rightarrow> None | Some s' \<Rightarrow> scan s' cs)"

definition checkValid :: "string \<Rightarrow> bool" where
  "checkValid data = (case scan scanner_reset data of None \<Rightarrow> False | Some s \<Rightarrow> scanner_eof s)"

subsection \<open>The entities and their \<^verbatim>\<open>UnmarshalJSON\<close>\<close>

definition kindComment :: string where "kindComment = ''t1''"
definition kindAccount :: string where "kindAccount = ''t2''"
definition kindLink :: string where "kindLink = ''t3''"
definition kindMessage :: string where "kindMessage = ''t4''"
definition kindSubreddit :: string where "kindSubreddit = ''t5''"
definition kindAward :: string where "kindAward = ''t6''"
definition kindListing :: string where "kindListing = ''Listing''"
definition kindMore :: string where "kindMore = ''more''"

text \<open>
  Once the syntax check has passed, \<^verbatim>\<open>json.Unmarshal(b, v)\<close> skips the space
  before the value, and, \<open>v\<close> being a pointer whose type has an
  \<^verbatim>\<open>UnmarshalJSON\<close> method, hands the text of the value to that method: the input
  without the space around it.
\<close>

definition valueText :: "string \<Rightarrow> string" where
  "valueText data = rev (dropWhile isSpace (rev (dropWhile isSpace data)))"

text \<open>
  The eight entity types of \<^verbatim>\<open>json.go\<close> have the same method body: the receiver
  passes itself to \<^verbatim>\<open>json.Unmarshal\<close>, and wraps the error that comes back in a
  \<^verbatim>\<open>JSONError\<close>. The receiver is a pointer to one of the eight types, so
  \<^verbatim>\<open>json.Unmarshal\<close> calls the same method of the same receiver. The method may not
  return: the result is \<open>None\<close> then, \<open>Some None\<close> is a nil error. The parameter
  \<open>syntaxError\<close> is the text of the library's syntax error for an input.
\<close>

datatype receiver =
    ListingPtr | CommentPtr | LinkPtr | SubredditPtr | MessagePtr | AccountPtr | AwardPtr | MorePtr

definition JSONError_Error :: "JSONError \<Rightarrow> string" where
  "JSONError_Error r = (case r of JSONError m d \<Rightarrow> ''JSONError: '' @ m @ [CHR 0x0A] @ d)"

partial_function (option) UnmarshalJSON :: "(string \<Rightarrow> string) \<Rightarrow> receiver \<Rightarrow> string \<Rightarrow> JSONError option option" where
  "UnmarshalJSON syntaxError recv b =
     (if \<not> checkValid b
      then Some (Some (JSONError (''error during unmarshal: '' @ syntaxError b) b))
      else Option.bind (UnmarshalJSON syntaxError recv (valueText b))
             (\<lambda>err. case err of
                       None \<Rightarrow> Some None
                     | Some r \<Rightarrow>
                         Some (Some (JSONError (''error during unmarshal: '' @ JSONError_Error r) b))))"

subsection \<open>Sample inputs\<close>

text \<open>
  A clock, a request, and responses with and without the rate headers, on which the
  theorems below are instantiated.
\<close>

definition sample_env :: env where
  "sample_env =
     \<lparr>now_gate = 5000000000, now_store = 6500000000, now_check = 7000000000,
      ParseFloat = (\<lambda>_. 0), Time_String = (\<lambda>_. ''later'')\<rparr>"

definition sample_request :: Request where
  "sample_request =
     \<lparr>Method = ''GET'', URL = defaultBaseURL\<lparr>Path := ''/api/v1/me''\<rparr>,
      ReqHeader = Map.empty, ReqBody = None\<rparr>"

definition sample_response :: "int \<Rightarrow> Header \<Rightarrow> string \<Rightarrow> Response" where
  "sample_response code h body =
     \<lparr>Status = [], StatusCode = code, Header = h,
      Body = \<lparr>unread = body, failure = None\<rparr>, ContentLength = int (length body),
      Request = sample_request\<rparr>"

definition exhausted_header :: Header where
  "exhausted_header =
     [headerRateLimitRemaining \<mapsto> [''0''], headerRateLimitUsed \<mapsto> [''60''],
      headerRateLimitReset \<mapsto> [''120'']]"

definition sample_client :: "Response \<Rightarrow> Client" where
  "sample_client resp = newClient (\<lambda>_. RoundTripOK resp)"

definition sample_net :: net where
  "sample_net =
     \<lparr>url_Parse = (\<lambda>base path. Inr (base\<lparr>Path := CHR ''/'' # path\<rparr>)),
      http_NewRequest = (\<lambda>method u body.
         Inr \<lparr>Method = method, URL = u, ReqHeader = Map.empty, ReqBody = body\<rparr>)\<rparr>"

definition payload_t1 :: string where
  \<open>payload_t1 = ''{"kind":"t1","data":{"body":"hello"}}''\<close>

definition payload_t99 :: string where
  \<open>payload_t99 = ''{"kind":"t99","data":{}}''\<close>

section \<open>Properties\<close>

subsection \<open>The steps of \<^verbatim>\<open>Do\<close>\<close>

lemma gate_blocks_iff:
  "checkRateLimitBeforeDo e c req = None \<longleftrightarrow>
     \<not> (Reset (rate c) \<noteq> 0 \<and> Remaining (rate c) = 0 \<and> now_gate e < Reset (rate c))"
  by (simp add: checkRateLimitBeforeDo_def Let_def IsZero_def Before_def)

lemma Do_events_call:
  "Call req \<in> set (snd (snd (Do e c req v))) \<longleftrightarrow> checkRateLimitBeforeDo e c req = None"
  by (auto simp: Do_def Let_def split: option.splits roundtrip.splits outcome.splits prod.splits)

lemma Do_events_first:
  "checkRateLimitBeforeDo e c req = None \<Longrightarrow> \<exists>evs. snd (snd (Do e c req v)) = Call req # evs"
  by (auto simp: Do_def Let_def split: option.splits roundtrip.splits outcome.splits prod.splits)

lemma Do_sent:
  assumes "checkRateLimitBeforeDo e c req = None" and "client c req = RoundTripOK resp"
  shows "Do e c req v =
     (let ev = Call req # (if onRequestCompleted c \<noteq> Nil then [Completed req resp] else []);
          c' = c\<lparr>rate := parseRate e (now_store e) resp\<rparr>
      in case CheckResponse e resp of
           (Panic p, _) \<Rightarrow> (Panic p, c', ev)
         | (Return (Some err), _) \<Rightarrow> (Return (Inl err), c', ev)
         | (Return None, resp') \<Rightarrow>
             (case storeBody v resp' of (res, ev') \<Rightarrow> (res, c', ev @ ev')))"
  using assms by (simp add: Do_def)

lemma CheckResponse_exhausted:
  "Header_Get (Header r) headerRateLimitRemaining = ''0'' \<Longrightarrow>
   CheckResponse e r =
     (Return (Some (E_RateLimit (RateLimitError
        (ResponseError
           (''API rate limit has been exceeded until ''
              @ Time_String e (Reset (parseRate e (now_check e) r)) @ ''.'')
           (Some r))
        (parseRate e (now_check e) r)))), r)"
  by (simp add: CheckResponse_def Let_def)

lemma CheckResponse_body:
  "Header_Get (Header r) headerRateLimitRemaining \<noteq> ''0'' \<Longrightarrow>
   CheckResponse e r =
     (case failure (Body r) of
        None \<Rightarrow> (Panic nilDereference, r\<lparr>Body := (Body r)\<lparr>unread := []\<rparr>\<rparr>)
      | Some m \<Rightarrow>
          if StatusCode r = 200 then (Return None, r\<lparr>Body := (Body r)\<lparr>unread := []\<rparr>\<rparr>)
          else (Return (Some (E_Response (ResponseError m (Some (r\<lparr>Body := (Body r)\<lparr>unread := []\<rparr>\<rparr>))))),
                r\<lparr>Body := (Body r)\<lparr>unread := []\<rparr>\<rparr>))"
  by (simp add: CheckResponse_def ReadAll_def Let_def split: option.splits)

lemma storeBody_drained:
  assumes "unread (Body r) = []" and "failure (Body r) = Some m"
  shows "storeBody v r =
     (case v of
        NilDest \<Rightarrow> (Return (Inr r), [])
      | Writer w \<Rightarrow> (Return (Inl (E_Internal (InternalError m))), [])
      | Value u \<Rightarrow>
          if ContentLength r < 0 then (Panic makesliceLen, [])
          else (Return (Inl (E_JSON (JSONError m (replicate (nat (ContentLength r)) (CHR 0x00))))), []))"
  using assms
  by (cases v) (simp_all add: storeBody_def Copy_def Decode_def Read_def errorText_def Let_def)

lemma Seconds_120: "Seconds 120 = 120 * Second"
  by (simp add: Seconds_def Second_def)

lemma Truncate_Add_seconds: "Add (Truncate now Second) (k * Second) = Truncate (Add now (k * Second)) Second"
  by (simp add: Truncate_def Add_def Second_def)

lemma parseRate_sample:
  assumes "Header_Get (Header resp) headerRateLimitRemaining = ''0''"
    and "Header_Get (Header resp) headerRateLimitUsed = ''60''"
    and "Header_Get (Header resp) headerRateLimitReset = ''120''"
  shows "parseRate e now resp =
           \<lparr>Remaining = 0, Used = 60, Reset = Truncate (Add now (120 * Second)) Second\<rparr>"
proof -
  have r: "ParseFloat_int (ParseFloat e) ''0'' = 0"
    by (simp add: ParseFloat_int_def isDigit_def decimal_def digitVal_def)
  have u: "Atoi ''60'' = 60"
    by (simp add: Atoi_def ParseInt_def ParseUint_def isDigit_def digitVal_def)
  have v: "ParseInt ''120'' = 120"
    by (simp add: ParseInt_def ParseUint_def isDigit_def digitVal_def)
  show ?thesis
    using assms
    by (simp add: parseRate_def Let_def Rate_zero_def r u v Seconds_120 Truncate_Add_seconds)
qed

lemma parseRate_remaining_zero:
  "Header_Get (Header resp) headerRateLimitRemaining = ''0'' \<Longrightarrow> Remaining (parseRate e now resp) = 0"
  by (simp add: parseRate_def Let_def Rate_zero_def ParseFloat_int_def isDigit_def decimal_def digitVal_def)

subsection \<open>The sample inputs\<close>

lemma sample_gate:
  "checkRateLimitBeforeDo sample_env (sample_client r) sample_request = None"
  by (simp add: gate_blocks_iff sample_client_def newClient_def Rate_zero_def)

lemma sample_roundtrip: "client (sample_client r) sample_request = RoundTripOK r"
  by (simp add: sample_client_def newClient_def)

lemma exhausted_header_values:
  "Header_Get (Header (sample_response code exhausted_header body)) headerRateLimitRemaining = ''0''"
  "Header_Get (Header (sample_response code exhausted_header body)) headerRateLimitUsed = ''60''"
  "Header_Get (Header (sample_response code exhausted_header body)) headerRateLimitReset = ''120''"
  by (simp_all add: sample_response_def exhausted_header_def Header_Get_def
      headerRateLimitRemaining_def headerRateLimitUsed_def headerRateLimitReset_def)

lemma empty_header_values:
  "Header_Get (Header (sample_response code Map.empty body)) headerRateLimitRemaining \<noteq> ''0''"
  by (simp add: sample_response_def Header_Get_def)

lemma sample_stored_rate:
  "rate (fst (snd (Do sample_env (sample_client (sample_response 200 exhausted_header ''{}''))
      sample_request NilDest))) = \<lparr>Remaining = 0, Used = 60, Reset = 126000000000\<rparr>"
proof -
  have "rate (fst (snd (Do sample_env (sample_client (sample_response 200 exhausted_header ''{}''))
      sample_request NilDest)))
      = parseRate sample_env (now_store sample_env) (sample_response 200 exhausted_header ''{}'')"
    by (simp add: Do_sent[OF sample_gate sample_roundtrip] CheckResponse_exhausted
        exhausted_header_values Let_def)
  also have "\<dots> = \<lparr>Remaining = 0, Used = 60, Reset = 126000000000\<rparr>"
    by (simp add: parseRate_sample exhausted_header_values sample_env_def
        Truncate_def Add_def Second_def)
  finally show ?thesis .
qed

subsection \<open>The scanner and the space around a value\<close>

text \<open>
  An input that passes the syntax check still passes it without the space around its
  value, so a method that hands the text of its value to itself never comes to an end on
  such an input.
\<close>

lemma scan_append:
  "scan s (xs @ ys) = (case scan s xs of None \<Rightarrow> None | Some s' \<Rightarrow> scan s' ys)"
  by (induction xs arbitrary: s) (auto split: option.splits)

lemma scanner_reset_space: "isSpace c \<Longrightarrow> scanner_step scanner_reset c = Some scanner_reset"
  by (simp add: scanner_step_def scanner_reset_def stateBeginValue_def)

lemma scan_dropWhile_space: "scan scanner_reset (dropWhile isSpace xs) = scan scanner_reset xs"
  by (induction xs) (auto simp: scanner_reset_space)


lemma space_not_special:
  assumes "isSpace c"
  shows "c \<notin> set ''0123456789''" "c \<noteq> CHR ''.''" "c \<noteq> CHR ''e''" "c \<noteq> CHR ''E''"
    "c \<noteq> CHR '':''" "c \<noteq> CHR '',''" "c \<noteq> CHR ''}''" "c \<noteq> CHR '']''"
  using assms by (auto simp: isSpace_def)

lemma stateEndValue_space:
  assumes "isSpace c"
  shows "stateEndValue s c =
     Some (if parseStack s = [] then s\<lparr>step := EndTop, endTop := True\<rparr> else s\<lparr>step := EndValue\<rparr>)"
  using assms by (cases "parseStack s") (simp_all add: stateEndValue_def stateEndTop_def)

lemma number_space:
  assumes "isSpace c"
  shows "state0 s c = stateEndValue s c" "state1 s c = stateEndValue s c"
    "stateDot0 s c = stateEndValue s c" "stateE0 s c = stateEndValue s c"
  using space_not_special[OF assms]
  by (simp_all add: state0_def state1_def stateDot0_def stateE0_def)

lemma begin_space:
  assumes "isSpace c"
  shows "stateBeginValue s c = Some s" "stateBeginValueOrEmpty s c = Some s"
    "stateBeginString s c = Some s" "stateBeginStringOrEmpty s c = Some s"
    "stateEndTop s c = Some s"
  using assms
  by (simp_all add: stateBeginValue_def stateBeginValueOrEmpty_def stateBeginString_def
      stateBeginStringOrEmpty_def stateEndTop_def)

lemma eof_stable:
  "scanner_eof s \<longleftrightarrow>
     endTop s \<or> (step s \<in> {EndValue, State0, State1, Dot0, StateE0} \<and> parseStack s = [])"
proof -
  have sp: "isSpace (CHR '' '')" by (simp add: isSpace_def)
  show ?thesis
    by (cases "step s")
      (simp_all add: scanner_eof_def scanner_step_def begin_space[OF sp] number_space[OF sp]
        stateEndValue_space[OF sp] stateInString_def stateInStringEsc_def stateInStringEscU_def
        stateNeg_def stateDot_def stateE_def stateESign_def stateLiteral_def split: list.splits)
qed

lemma eof_after_space:
  assumes "isSpace c" and "scanner_step s c = Some s'" and "scanner_eof s'"
  shows "scanner_eof s"
proof (cases "step s")
  case InString
  with assms show ?thesis
    by (auto simp: eof_stable scanner_step_def stateInString_def isSpace_def split: if_splits)
qed (use assms in \<open>auto simp: eof_stable scanner_step_def begin_space number_space
        stateEndValue_space stateInStringEsc_def stateInStringEscU_def
        stateNeg_def stateDot_def stateE_def stateESign_def stateLiteral_def
        space_not_special isSpace_def split: if_splits list.splits\<close>)

lemma valid_drop_trailing:
  assumes "list_all isSpace ws" and "checkValid (xs @ ws)"
  shows "checkValid xs"
  using assms
proof (induction ws rule: rev_induct)
  case Nil
  then show ?case by simp
next
  case (snoc w ws)
  from snoc.prems(2) obtain s1 s2 where
    s1: "scan scanner_reset (xs @ ws) = Some s1" and
    s2: "scanner_step s1 w = Some s2" and e: "scanner_eof s2"
    by (auto simp: checkValid_def scan_append[of _ "xs @ ws" "[w]", simplified]
        split: option.splits)
  from snoc.prems(1) have w: "isSpace w" and ws: "list_all isSpace ws" by simp_all
  from eof_after_space[OF w s2 e] s1 have "checkValid (xs @ ws)"
    by (simp add: checkValid_def)
  with snoc.IH ws show ?case by blast
qed

lemma valid_valueText: "checkValid b \<Longrightarrow> checkValid (valueText b)"
proof -
  assume v: "checkValid b"
  let ?d = "dropWhile isSpace b"
  have d: "checkValid ?d"
    using v by (simp add: checkValid_def scan_dropWhile_space)
  have split: "?d = valueText b @ rev (takeWhile isSpace (rev ?d))"
    unfolding valueText_def
    by (metis rev_append rev_rev_ident takeWhile_dropWhile_id)
  have "list_all isSpace (rev (takeWhile isSpace (rev ?d)))"
    by (simp add: list_all_iff) (meson set_takeWhileD)
  from valid_drop_trailing[OF this] d split show ?thesis by metis
qed

lemma UnmarshalJSON_returns:
  assumes "UnmarshalJSON syntaxError recv b = Some r"
  shows "\<not> checkValid b"
proof (rule UnmarshalJSON.raw_induct[where P = "\<lambda>_ _ b _. \<not> checkValid b", OF _ assms], goal_cases)
  case (1 f syntaxError recv b r)
  note IH = this(1) and eq = this(2)
  show ?case
  proof
    assume v: "checkValid b"
    with eq obtain z where "f syntaxError recv (valueText b) = Some z"
      by (auto simp: bind_eq_Some_conv)
    from IH[OF this] valid_valueText[OF v] show False by simp
  qed
qed

lemma UnmarshalJSON_no_return:
  assumes "checkValid b"
  shows "UnmarshalJSON syntaxError recv b = None"
proof (cases "UnmarshalJSON syntaxError recv b")
  case None
  then show ?thesis .
next
  case (Some r)
  from UnmarshalJSON_returns[OF this] assms show ?thesis by simp
qed

lemma valid_t1: "checkValid payload_t1"
  unfolding payload_t1_def by code_simp

lemma valid_t99: "checkValid payload_t99"
  unfolding payload_t99_def by code_simp

subsection \<open>The claims\<close>

text \<open>
  C1. \<^verbatim>\<open>Do\<close> hands the request to the HTTP client if and only if the stored rate
  does not block it. When the stored rate has \<open>Remaining = 0\<close>, a \<open>Reset\<close> that is set
  and later than the clock, \<^verbatim>\<open>Do\<close> returns a rate-limit error that carries the stored
  rate and the made-up 429 response, leaves the client as it was and calls nothing. When
  \<open>Remaining > 0\<close>, or the clock is at or past \<open>Reset\<close>, the first thing the call does is
  hand the request to the HTTP client.
\<close>

theorem Do_rate_gate:
  "(Call req \<in> set (snd (snd (Do e c req v))) \<longleftrightarrow>
      \<not> (Reset (rate c) \<noteq> 0 \<and> Remaining (rate c) = 0 \<and> now_gate e < Reset (rate c)))
   \<and> (Reset (rate c) \<noteq> 0 \<and> Remaining (rate c) = 0 \<and> now_gate e < Reset (rate c) \<longrightarrow>
        Do e c req v =
          (Return (Inl (E_RateLimit (RateLimitError
             (ResponseError
                (''API rate limit still exceeded until '' @ Time_String e (Reset (rate c))
                   @ '', not making remote request.'')
                (Some (fake429 req)))
             (rate c)))), c, []))
   \<and> (Remaining (rate c) > 0 \<or> now_gate e \<ge> Reset (rate c) \<longrightarrow>
        (\<exists>evs. snd (snd (Do e c req v)) = Call req # evs))"
proof (intro conjI impI)
  show "Call req \<in> set (snd (snd (Do e c req v))) \<longleftrightarrow>
      \<not> (Reset (rate c) \<noteq> 0 \<and> Remaining (rate c) = 0 \<and> now_gate e < Reset (rate c))"
    by (simp only: Do_events_call gate_blocks_iff)
next
  assume "Reset (rate c) \<noteq> 0 \<and> Remaining (rate c) = 0 \<and> now_gate e < Reset (rate c)"
  then show "Do e c req v =
          (Return (Inl (E_RateLimit (RateLimitError
             (ResponseError
                (''API rate limit still exceeded until '' @ Time_String e (Reset (rate c))
                   @ '', not making remote request.'')
                (Some (fake429 req)))
             (rate c)))), c, [])"
    by (simp add: Do_def checkRateLimitBeforeDo_def Let_def IsZero_def Before_def)
next
  assume "Remaining (rate c) > 0 \<or> now_gate e \<ge> Reset (rate c)"
  then have "checkRateLimitBeforeDo e c req = None"
    by (auto simp: gate_blocks_iff)
  then show "\<exists>evs. snd (snd (Do e c req v)) = Call req # evs"
    by (rule Do_events_first)
qed

theorem Do_rate_gate_witness:
  "snd (snd (Do sample_env
       ((sample_client (sample_response 200 Map.empty []))
          \<lparr>rate := \<lparr>Remaining = 0, Used = 60, Reset = 126000000000\<rparr>\<rparr>)
       sample_request NilDest)) = []
   \<and> Call sample_request \<in> set (snd (snd (Do sample_env
       ((sample_client (sample_response 200 Map.empty []))
          \<lparr>rate := \<lparr>Remaining = 0, Used = 60, Reset = 4000000000\<rparr>\<rparr>)
       sample_request NilDest)))
   \<and> Call sample_request \<in> set (snd (snd (Do sample_env
       ((sample_client (sample_response 200 Map.empty []))
          \<lparr>rate := \<lparr>Remaining = 3, Used = 57, Reset = 126000000000\<rparr>\<rparr>)
       sample_request NilDest)))"
  using
    Do_rate_gate[of sample_request sample_env
      "(sample_client (sample_response 200 Map.empty []))
          \<lparr>rate := \<lparr>Remaining = 0, Used = 60, Reset = 126000000000\<rparr>\<rparr>" NilDest]
    Do_rate_gate[of sample_request sample_env
      "(sample_client (sample_response 200 Map.empty []))
          \<lparr>rate := \<lparr>Remaining = 0, Used = 60, Reset = 4000000000\<rparr>\<rparr>" NilDest]
    Do_rate_gate[of sample_request sample_env
      "(sample_client (sample_response 200 Map.empty []))
          \<lparr>rate := \<lparr>Remaining = 3, Used = 57, Reset = 126000000000\<rparr>\<rparr>" NilDest]
  by (simp add: sample_env_def)

text \<open>
  C2. No \<^verbatim>\<open>UnmarshalJSON\<close> of \<^verbatim>\<open>json.go\<close> looks at the kind of its payload: on
  a well-formed payload of kind \<^verbatim>\<open>t1\<close>, and on one of the unknown kind \<^verbatim>\<open>t99\<close>,
  the method of every receiver does not return, so it yields neither a Comment nor an
  error that names the kind.
\<close>

theorem UnmarshalJSON_kind_payloads:
  "UnmarshalJSON syntaxError recv payload_t1 = None
   \<and> UnmarshalJSON syntaxError recv payload_t99 = None"
  by (simp add: UnmarshalJSON_no_return valid_t1 valid_t99)

theorem UnmarshalJSON_kind_payloads_witness:
  "UnmarshalJSON (\<lambda>_. []) CommentPtr payload_t1 = None
   \<and> UnmarshalJSON (\<lambda>_. []) CommentPtr payload_t99 = None"
  using UnmarshalJSON_kind_payloads[of "\<lambda>_. []" CommentPtr] by simp

text \<open>
  C3. A response whose \<^verbatim>\<open>x-ratelimit-remaining\<close> header is not \<^verbatim>\<open>0\<close> and whose
  status is not 200: \<^verbatim>\<open>Do\<close> returns the response error, carrying the response (and so
  its status and its request), only when reading the body fails; when the body reads to its
  end, \<^verbatim>\<open>CheckResponse\<close> takes the text of a nil error and the call panics.
\<close>

theorem Do_status_not_200:
  assumes "checkRateLimitBeforeDo e c req = None" and "client c req = RoundTripOK resp"
    and "Header_Get (Header resp) headerRateLimitRemaining \<noteq> ''0''"
    and "StatusCode resp \<noteq> 200"
  shows "fst (Do e c req v) =
     (case failure (Body resp) of
        None \<Rightarrow> Panic nilDereference
      | Some m \<Rightarrow>
          Return (Inl (E_Response (ResponseError m
            (Some (resp\<lparr>Body := (Body resp)\<lparr>unread := []\<rparr>\<rparr>))))))"
  using assms
  by (simp add: Do_sent CheckResponse_body Let_def split: option.splits)

theorem Do_status_not_200_witness:
  "fst (Do sample_env (sample_client (sample_response 404 Map.empty ''Not Found''))
      sample_request NilDest) = Panic nilDereference"
  using Do_status_not_200[OF sample_gate sample_roundtrip empty_header_values,
      of 404 "''Not Found''" NilDest]
  by (simp add: sample_response_def)

text \<open>
  C4. A response whose \<^verbatim>\<open>x-ratelimit-remaining\<close> header reads \<^verbatim>\<open>0\<close>, sent
  through the gate: \<^verbatim>\<open>Do\<close> returns a rate-limit error carrying the response and the
  rate parsed from it, whose \<open>Remaining\<close> is 0, whatever the status of the response.
\<close>

theorem Do_remaining_zero:
  assumes "checkRateLimitBeforeDo e c req = None" and "client c req = RoundTripOK resp"
    and "Header_Get (Header resp) headerRateLimitRemaining = ''0''"
  shows "fst (Do e c req v) =
           Return (Inl (E_RateLimit (RateLimitError
             (ResponseError
                (''API rate limit has been exceeded until ''
                   @ Time_String e (Reset (parseRate e (now_check e) resp)) @ ''.'')
                (Some resp))
             (parseRate e (now_check e) resp))))
         \<and> Remaining (parseRate e (now_check e) resp) = 0"
  using assms
  by (simp add: Do_sent CheckResponse_exhausted Let_def parseRate_remaining_zero)

theorem Do_remaining_zero_witness:
  "fst (Do sample_env (sample_client (sample_response 200 exhausted_header ''{}''))
      sample_request NilDest)
   = Return (Inl (E_RateLimit (RateLimitError
       (ResponseError ''API rate limit has been exceeded until later.''
          (Some (sample_response 200 exhausted_header ''{}'')))
       \<lparr>Remaining = 0, Used = 60, Reset = 127000000000\<rparr>)))"
  using Do_remaining_zero[OF sample_gate sample_roundtrip exhausted_header_values(1),
      of 200 "''{}''" NilDest]
  by (simp add: parseRate_sample exhausted_header_values sample_env_def
      Truncate_def Add_def Second_def)

text \<open>
  C5. On the headers \<^verbatim>\<open>x-ratelimit-remaining: 0\<close>, \<^verbatim>\<open>x-ratelimit-used: 60\<close> and
  \<^verbatim>\<open>x-ratelimit-reset: 120\<close>, \<^verbatim>\<open>parseRate\<close> gives \<open>Remaining = 0\<close>,
  \<open>Used = 60\<close> and a \<open>Reset\<close> of the clock plus 120 seconds, truncated to the second,
  and \<^verbatim>\<open>Do\<close> leaves that rate in the client.
\<close>

theorem parseRate_exhausted_header:
  assumes "Header_Get (Header resp) headerRateLimitRemaining = ''0''"
    and "Header_Get (Header resp) headerRateLimitUsed = ''60''"
    and "Header_Get (Header resp) headerRateLimitReset = ''120''"
  shows "parseRate e now resp =
           \<lparr>Remaining = 0, Used = 60, Reset = Truncate (Add now (120 * Second)) Second\<rparr>
         \<and> (checkRateLimitBeforeDo e c req = None \<and> client c req = RoundTripOK resp \<longrightarrow>
              rate (fst (snd (Do e c req v))) =
                \<lparr>Remaining = 0, Used = 60, Reset = Truncate (Add (now_store e) (120 * Second)) Second\<rparr>)"
proof (intro conjI impI)
  show "parseRate e now resp =
           \<lparr>Remaining = 0, Used = 60, Reset = Truncate (Add now (120 * Second)) Second\<rparr>"
    by (rule parseRate_sample[OF assms])
next
  assume "checkRateLimitBeforeDo e c req = None \<and> client c req = RoundTripOK resp"
  then show "rate (fst (snd (Do e c req v))) =
                \<lparr>Remaining = 0, Used = 60, Reset = Truncate (Add (now_store e) (120 * Second)) Second\<rparr>"
    by (simp add: Do_sent CheckResponse_exhausted[OF assms(1)] Let_def parseRate_sample[OF assms])
qed

theorem parseRate_exhausted_header_witness:
  "parseRate sample_env 6500000000 (sample_response 200 exhausted_header ''{}'')
     = \<lparr>Remaining = 0, Used = 60, Reset = 126000000000\<rparr>
   \<and> rate (fst (snd (Do sample_env (sample_client (sample_response 200 exhausted_header ''{}''))
        sample_request NilDest)))
     = \<lparr>Remaining = 0, Used = 60, Reset = 126000000000\<rparr>"
  using parseRate_exhausted_header[where resp = "sample_response 200 exhausted_header ''{}''"
      and e = sample_env and now = 6500000000
      and c = "sample_client (sample_response 200 exhausted_header ''{}'')"
      and req = sample_request and v = NilDest]
    sample_gate[of "sample_response 200 exhausted_header ''{}''"]
    sample_roundtrip[of "sample_response 200 exhausted_header ''{}''"]
  by (simp add: exhausted_header_values sample_env_def Truncate_def Add_def Second_def)

text \<open>
  C6. A request built by \<^verbatim>\<open>NewRequest\<close> has the host that the library resolved.
  When that is the host of the read-only base, the path of its URL is the resolved path
  followed by \<^verbatim>\<open>.json\<close>; when it is the host of the OAuth base, or any host other
  than \<^verbatim>\<open>reddit.com\<close>, the URL is the resolved one.
\<close>

theorem NewRequest_json_suffix:
  assumes "url_Parse l (BaseURL c) path = Inr u" and "http_NewRequest l method u form = Inr req0"
  shows "\<exists>req. NewRequest l c method path form = Inr req
           \<and> Host (URL req) = Host (URL req0)
           \<and> (Host (URL req0) = Host defaultBaseURLReadonly \<longrightarrow>
                URL req = (URL req0)\<lparr>Path := Path (URL req0) @ ''.json''\<rparr>)
           \<and> (Host (URL req0) = Host defaultBaseURL \<longrightarrow> URL req = URL req0)
           \<and> (Host (URL req0) \<noteq> ''reddit.com'' \<longrightarrow> URL req = URL req0)"
  using assms
  by (simp add: NewRequest_def appendJSONExtensionToRequestURLPath_def Request_Header_Add_def
      defaultBaseURLReadonly_def defaultBaseURL_def)

theorem NewRequest_json_suffix_witness:
  "map_sum id (\<lambda>req. Path (URL req))
     (NewRequest sample_net
        ((sample_client (sample_response 200 Map.empty []))\<lparr>BaseURL := defaultBaseURLReadonly\<rparr>)
        ''GET'' ''r/foo/about'' None) = Inr ''/r/foo/about.json''
   \<and> map_sum id (\<lambda>req. Path (URL req))
     (NewRequest sample_net (sample_client (sample_response 200 Map.empty []))
        ''GET'' ''r/foo/about'' None) = Inr ''/r/foo/about''"
  using
    NewRequest_json_suffix[of sample_net
      "(sample_client (sample_response 200 Map.empty []))\<lparr>BaseURL := defaultBaseURLReadonly\<rparr>"
      "''r/foo/about''" "defaultBaseURLReadonly\<lparr>Path := ''/r/foo/about''\<rparr>" "''GET''" None
      "\<lparr>Method = ''GET'', URL = defaultBaseURLReadonly\<lparr>Path := ''/r/foo/about''\<rparr>,
        ReqHeader = Map.empty, ReqBody = None\<rparr>"]
    NewRequest_json_suffix[of sample_net
      "sample_client (sample_response 200 Map.empty [])"
      "''r/foo/about''" "defaultBaseURL\<lparr>Path := ''/r/foo/about''\<rparr>" "''GET''" None
      "\<lparr>Method = ''GET'', URL = defaultBaseURL\<lparr>Path := ''/r/foo/about''\<rparr>,
        ReqHeader = Map.empty, ReqBody = None\<rparr>"]
  by (auto simp: sample_net_def sample_client_def newClient_def defaultBaseURLReadonly_def
      defaultBaseURL_def)

text \<open>
  C7. A response of status 200 whose \<^verbatim>\<open>x-ratelimit-remaining\<close> header is not
  \<^verbatim>\<open>0\<close>: when its body reads to its end, \<^verbatim>\<open>Do\<close> panics in
  \<^verbatim>\<open>CheckResponse\<close>, whatever the destination; when reading the body fails, a writer
  gets an internal error and no bytes, and any other destination a \<^verbatim>\<open>JSONError\<close>
  whose data are \<^verbatim>\<open>ContentLength\<close> zero bytes, or a panic when that length is
  negative. Nothing is decoded, and nothing is written.
\<close>

theorem Do_status_200:
  assumes "checkRateLimitBeforeDo e c req = None" and "client c req = RoundTripOK resp"
    and "Header_Get (Header resp) headerRateLimitRemaining \<noteq> ''0''"
    and "StatusCode resp = 200"
  shows "fst (Do e c req v) =
     (case failure (Body resp) of
        None \<Rightarrow> Panic nilDereference
      | Some m \<Rightarrow>
          (case v of
             NilDest \<Rightarrow> Return (Inr (resp\<lparr>Body := (Body resp)\<lparr>unread := []\<rparr>\<rparr>))
           | Writer w \<Rightarrow> Return (Inl (E_Internal (InternalError m)))
           | Value u \<Rightarrow>
               if ContentLength resp < 0 then Panic makesliceLen
               else Return (Inl (E_JSON (JSONError m
                      (replicate (nat (ContentLength resp)) (CHR 0x00)))))))
     \<and> snd (snd (Do e c req v)) =
         Call req # (if onRequestCompleted c \<noteq> Nil then [Completed req resp] else [])"
  using assms
  by (cases v)
     (simp_all add: Do_sent CheckResponse_body Let_def storeBody_drained split: option.splits)

theorem Do_status_200_witness:
  "fst (Do sample_env (sample_client (sample_response 200 Map.empty payload_t1))
      sample_request (Value (\<lambda>b. (None, b\<lparr>unread := []\<rparr>)))) = Panic nilDereference"
  using Do_status_200[OF sample_gate sample_roundtrip empty_header_values,
      of 200 payload_t1 "Value (\<lambda>b. (None, b\<lparr>unread := []\<rparr>))"]
  by (simp add: sample_response_def)

text \<open>
  C8. The client that \<^verbatim>\<open>Do\<close> leaves is the client it was given, but for the
  field \<open>rate\<close>.
\<close>

theorem Do_frame:
  "fst (snd (Do e c req v)) = c\<lparr>rate := rate (fst (snd (Do e c req v)))\<rparr>"
  by (auto simp: Do_def Let_def split: option.splits roundtrip.splits outcome.splits prod.splits)

theorem Do_frame_witness:
  "fst (snd (Do sample_env (sample_client (sample_response 200 exhausted_header ''{}''))
      sample_request NilDest))
   = (sample_client (sample_response 200 exhausted_header ''{}''))
       \<lparr>rate := \<lparr>Remaining = 0, Used = 60, Reset = 126000000000\<rparr>\<rparr>"
  using Do_frame[of sample_env "sample_client (sample_response 200 exhausted_header ''{}'')"
      sample_request NilDest]
  by (simp only: sample_stored_rate)

text \<open>
  C9. \<^verbatim>\<open>UnmarshalJSON\<close>, of each of the eight receivers, returns exactly on the
  inputs that fail the syntax check, with a \<^verbatim>\<open>JSONError\<close> that carries the input; on
  every well-formed input it does not return.
\<close>

theorem UnmarshalJSON_outcome:
  "UnmarshalJSON syntaxError recv b =
     (if checkValid b then None
      else Some (Some (JSONError (''error during unmarshal: '' @ syntaxError b) b)))"
proof (cases "checkValid b")
  case True
  then show ?thesis by (simp add: UnmarshalJSON_no_return)
next
  case False
  then show ?thesis by (subst UnmarshalJSON.simps) simp
qed

theorem UnmarshalJSON_outcome_witness:
  "UnmarshalJSON (\<lambda>_. ''unexpected end of JSON input'') ListingPtr ''{}'' = None
   \<and> UnmarshalJSON (\<lambda>_. ''unexpected end of JSON input'') ListingPtr ''{''
       = Some (Some (JSONError ''error during unmarshal: unexpected end of JSON input'' ''{''))"
proof -
  have a: "checkValid ''{}''" by code_simp
  have b: "\<not> checkValid ''{''" by code_simp
  show ?thesis
    using UnmarshalJSON_outcome[of "\<lambda>_. ''unexpected end of JSON input''" ListingPtr "''{}''"]
      UnmarshalJSON_outcome[of "\<lambda>_. ''unexpected end of JSON input''" ListingPtr "''{''"]
    by (simp add: a b)
qed

text \<open>
  C10. The rate of a client fresh from \<^verbatim>\<open>newClient\<close> is the zero rate; the gate
  lets a client with the zero rate through, and the first call of \<^verbatim>\<open>Do\<close> on a fresh
  client hands its request to the HTTP client.
\<close>

theorem fresh_client_passes_gate:
  "rate (newClient t) = Rate_zero
   \<and> checkRateLimitBeforeDo e (newClient t) req = None
   \<and> checkRateLimitBeforeDo e (c\<lparr>rate := Rate_zero\<rparr>) req = None
   \<and> (\<exists>evs. snd (snd (Do e (newClient t) req v)) = Call req # evs)"
proof -
  have z: "checkRateLimitBeforeDo e (c'\<lparr>rate := Rate_zero\<rparr>) req = None" for c'
    by (simp add: gate_blocks_iff Rate_zero_def)
  have n: "rate (newClient t) = Rate_zero"
    by (simp add: newClient_def)
  have g: "checkRateLimitBeforeDo e (newClient t) req = None"
    by (simp add: gate_blocks_iff n Rate_zero_def)
  from n g z Do_events_first[OF g] show ?thesis by blast
qed

theorem fresh_client_passes_gate_witness:
  "checkRateLimitBeforeDo sample_env (sample_client (sample_response 200 Map.empty [])) sample_request = None
   \<and> hd (snd (snd (Do sample_env (sample_client (sample_response 200 Map.empty []))
        sample_request NilDest))) = Call sample_request"
  using fresh_client_passes_gate[of "\<lambda>_. RoundTripOK (sample_response 200 Map.empty [])"
      sample_env sample_request "sample_client (sample_response 200 Map.empty [])" NilDest]
  by (auto simp: sample_client_def)

end
